theory Spec2Isabelle
  imports Main "HOL-Library.AList"
begin

section \<open>JavaScript values\<close>

text \<open>
  The values that reach the fullscreen controller: \<open>undefined\<close>, \<open>null\<close>, booleans,
  strings and references to objects (elements, videos, listener functions), compared by
  identity. Numbers never occur in the fullscreen surface and are left out.
\<close>

datatype val = Undefined | Null | Bool bool | Str string | Obj nat

text \<open>ToBoolean: what \<open>Boolean(v)\<close>, \<open>v ? a : b\<close>, \<open>v && w\<close> and \<open>v || w\<close> test.\<close>

fun truthy :: "val \<Rightarrow> bool" where
  "truthy Undefined = False"
| "truthy Null = False"
| "truthy (Bool b) = b"
| "truthy (Str s) = (s \<noteq> [])"
| "truthy (Obj r) = True"

text \<open>Reading a property of \<open>undefined\<close> or \<open>null\<close> throws a TypeError.\<close>

fun nullish :: "val \<Rightarrow> bool" where
  "nullish Undefined = True"
| "nullish Null = True"
| "nullish v = False"

datatype thrown = TypeError | Thrown val

text \<open>
  \<open>xs[i]\<close> on an array: \<open>undefined\<close> (here \<open>None\<close>) out of range. A value used as a
  property key is converted to a string, \<open>undefined\<close> to the string \<open>"undefined"\<close>.
\<close>

definition js_index :: "'a list \<Rightarrow> nat \<Rightarrow> 'a option" where
  "js_index xs i = (if i < length xs then Some (xs ! i) else None)"

definition to_key :: "string option \<Rightarrow> string" where
  "to_key v = (case v of None \<Rightarrow> ''undefined'' | Some s \<Rightarrow> s)"

text \<open>
  A plain object with string values, as \<open>{}\<close> creates it: its own properties, listed as
  they were inserted (the place an integer-like key takes in an enumeration is not
  modelled; the code reads the object by key only). \<open>obj[k] = v\<close> overwrites an existing
  key in place and appends a new one. The key \<open>__proto__\<close> is the inherited accessor of
  \<open>Object.prototype\<close>, whose setter ignores a value that is a string: that assignment
  creates no property.
\<close>

type_synonym jsobject = "(string \<times> string) list"

definition obj_set :: "jsobject \<Rightarrow> string \<Rightarrow> string \<Rightarrow> jsobject" where
  "obj_set obj k v = (if k = ''__proto__'' then obj else AList.update k v obj)"

definition obj_get :: "jsobject \<Rightarrow> string \<Rightarrow> string option" where
  "obj_get obj k = map_of obj k"

section \<open>The API resolver\<close>

definition API_LIST :: "string list list" where
  "API_LIST =
    [[''requestFullscreen'', ''exitFullscreen'', ''fullscreenElement'',
      ''fullscreenEnabled'', ''fullscreenchange'', ''fullscreenerror''],
     [''webkitRequestFullscreen'', ''webkitExitFullscreen'', ''webkitFullscreenElement'',
      ''webkitFullscreenEnabled'', ''webkitfullscreenchange'', ''webkitfullscreenerror''],
     [''webkitRequestFullScreen'', ''webkitCancelFullScreen'',
      ''webkitCurrentFullScreenElement'', ''webkitCancelFullScreen'',
      ''webkitfullscreenchange'', ''webkitfullscreenerror''],
     [''mozRequestFullScreen'', ''mozCancelFullScreen'', ''mozFullScreenElement'',
      ''mozFullScreenEnabled'', ''mozfullscreenchange'', ''mozfullscreenerror''],
     [''msRequestFullscreen'', ''msExitFullscreen'', ''msFullscreenElement'',
      ''msFullscreenEnabled'', ''MSFullscreenChange'', ''MSFullscreenError'']]"

text \<open>
  The \<open>for\<close> loop of \<open>findSupported\<close>: the first \<open>api\<close> of the list with
  \<open>api[1] in document\<close>, the loop breaking there; \<open>null\<close> (\<open>None\<close>) when the list is
  exhausted. The document enters as the predicate \<open>name in document\<close>.
\<close>

fun supportedApi :: "(string \<Rightarrow> bool) \<Rightarrow> string list list \<Rightarrow> string list option" where
  "supportedApi inDocument [] = None"
| "supportedApi inDocument (api # rest) =
     (if inDocument (to_key (js_index api 1)) then Some api
      else supportedApi inDocument rest)"

text \<open>
  The \<open>reduce\<close> of \<open>findSupported\<close>, from element \<open>i\<close> on:
  \<open>result[standardApi[i]] = funcName\<close>. \<open>standardApi\<close> is \<open>apiList[0]\<close>, which is
  \<open>undefined\<close> for an empty list; indexing it would throw.
\<close>

fun reduce_api ::
  "string list option \<Rightarrow> nat \<Rightarrow> jsobject \<Rightarrow> string list \<Rightarrow> thrown + jsobject" where
  "reduce_api standardApi i result [] = Inr result"
| "reduce_api standardApi i result (funcName # rest) =
     (case standardApi of
        None \<Rightarrow> Inl TypeError
      | Some std \<Rightarrow>
          reduce_api standardApi (Suc i) (obj_set result (to_key (js_index std i)) funcName) rest)"

definition findSupported ::
  "string list list \<Rightarrow> (string \<Rightarrow> bool) \<Rightarrow> thrown + jsobject option" where
  "findSupported apiList inDocument =
     (let standardApi = js_index apiList 0 in
      case supportedApi inDocument apiList of
        None \<Rightarrow> Inr None
      | Some api \<Rightarrow>
          (case reduce_api standardApi 0 [] api of
             Inl e \<Rightarrow> Inl e
           | Inr result \<Rightarrow> Inr (Some result)))"

section \<open>The host environment\<close>

text \<open>
  The document, its elements and the platform's native fullscreen are outside the
  controller. They are a parameter of the model: a state \<open>'e\<close> of the environment and
  the four ways the code touches it: \<open>name in document\<close>, \<open>obj[name]\<close>,
  \<open>obj[name](args)\<close> and \<open>document.createElement(tag)\<close>. Property reads are pure
  (\<open>undefined\<close> for a property the object does not have). A call returns or throws,
  the TypeError of a receiver without such a method included, and may change the
  environment in any way; it does not call back into the controller.
  \<open>document.createElement\<close> returns an element, as the DOM has it. The methods of the
  controller are called on the controller, so that \<open>this\<close> is the controller.
\<close>

record 'e host =
  has_property :: "'e \<Rightarrow> nat \<Rightarrow> string \<Rightarrow> bool"
  get_property :: "'e \<Rightarrow> val \<Rightarrow> string \<Rightarrow> val"
  call_native :: "'e \<Rightarrow> val \<Rightarrow> string \<Rightarrow> val list \<Rightarrow> (thrown + val) \<times> 'e"
  create_element :: "'e \<Rightarrow> nat \<Rightarrow> string \<Rightarrow> nat \<times> 'e"

text \<open>A method call that reached the environment: receiver, method name, arguments.\<close>

datatype event = Call val string "val list"

text \<open>
  What changes while the controller runs: the environment, the closure variable
  \<open>activeVideo\<close>, and the log of the calls made into the environment.
\<close>

record 'e state =
  env :: 'e
  activeVideo :: val
  trace :: "event list"

text \<open>What \<open>createFullscreen\<close> fixes once: \<open>API\<close>, \<open>TEST_VIDEO\<close> and the document.\<close>

record ctl =
  API :: "jsobject option"
  TEST_VIDEO :: nat
  document :: nat

text \<open>\<open>recv[name](args)\<close>: a TypeError before any call when \<open>recv\<close> is \<open>null\<close> or \<open>undefined\<close>.\<close>

definition call_method ::
  "'e host \<Rightarrow> 'e state \<Rightarrow> val \<Rightarrow> string \<Rightarrow> val list \<Rightarrow> (thrown + val) \<times> 'e state" where
  "call_method H s recv name args =
     (if nullish recv then (Inl TypeError, s)
      else (case call_native H (env s) recv name args of
              (r, e') \<Rightarrow> (r, s\<lparr>env := e', trace := trace s @ [Call recv name args]\<rparr>)))"

text \<open>\<open>API[name]\<close> used as a property key, and passed as an argument.\<close>

definition api_key :: "jsobject \<Rightarrow> string \<Rightarrow> string" where
  "api_key api name = to_key (obj_get api name)"

definition api_val :: "jsobject \<Rightarrow> string \<Rightarrow> val" where
  "api_val api name = (case obj_get api name of None \<Rightarrow> Undefined | Some n \<Rightarrow> Str n)"

section \<open>The fullscreen controller\<close>

definition createFullscreen ::
  "'e host \<Rightarrow> string list list \<Rightarrow> nat \<Rightarrow> 'e \<Rightarrow> thrown + ctl \<times> 'e state" where
  "createFullscreen H apiList doc e =
     (case findSupported apiList (has_property H e doc) of
        Inl x \<Rightarrow> Inl x
      | Inr api \<Rightarrow>
          (case create_element H e doc ''video'' of
             (v, e') \<Rightarrow>
               Inr (\<lparr>API = api, TEST_VIDEO = v, document = doc\<rparr>,
                    \<lparr>env = e', activeVideo = Null,
                     trace = [Call (Obj doc) ''createElement'' [Str ''video'']]\<rparr>)))"

definition enabled :: "'e host \<Rightarrow> ctl \<Rightarrow> 'e state \<Rightarrow> bool" where
  "enabled H c s =
     (let elementEnabled =
            (case API c of
               None \<Rightarrow> Null
             | Some api \<Rightarrow>
                 get_property H (env s) (Obj (document c)) (api_key api ''fullscreenEnabled''));
          videoEnabled = get_property H (env s) (Obj (TEST_VIDEO c)) ''webkitEnterFullscreen''
      in truthy (if truthy elementEnabled then elementEnabled else videoEnabled))"

definition element :: "'e host \<Rightarrow> ctl \<Rightarrow> 'e state \<Rightarrow> val" where
  "element H c s =
     (case API c of
        Some api \<Rightarrow> get_property H (env s) (Obj (document c)) (api_key api ''fullscreenElement'')
      | None \<Rightarrow>
          (if truthy (activeVideo s) then
             (if truthy (get_property H (env s) (activeVideo s) ''webkitDisplayingFullscreen'')
              then activeVideo s else Null)
           else Null))"

text \<open>
  The argument of \<open>isFullscreen\<close>, \<open>request\<close> and \<open>toggle\<close>: missing (or \<open>undefined\<close>),
  \<open>null\<close>, or an object with its \<open>el\<close> and \<open>video\<close> (each \<open>undefined\<close> when not given).
  The default \<open>{}\<close> replaces only a missing argument, so \<open>null\<close> is destructured and
  throws.
\<close>

datatype target = NoTarget | NullTarget | Target val val

fun destructure :: "target \<Rightarrow> thrown + val \<times> val" where
  "destructure NoTarget = Inr (Undefined, Undefined)"
| "destructure NullTarget = Inl TypeError"
| "destructure (Target el video) = Inr (el, video)"

definition isFullscreen :: "'e host \<Rightarrow> ctl \<Rightarrow> 'e state \<Rightarrow> target \<Rightarrow> thrown + bool" where
  "isFullscreen H c s t =
     (case destructure t of
        Inl x \<Rightarrow> Inl x
      | Inr (el, video) \<Rightarrow>
          (case API c of
             Some api \<Rightarrow> Inr (if truthy el then el = element H c s else truthy (element H c s))
           | None \<Rightarrow>
               Inr (if truthy video then video = element H c s else truthy (element H c s))))"

definition request ::
  "'e host \<Rightarrow> ctl \<Rightarrow> 'e state \<Rightarrow> target \<Rightarrow> (thrown + val) \<times> 'e state" where
  "request H c s t =
     (case destructure t of
        Inl x \<Rightarrow> (Inl x, s)
      | Inr (el, video) \<Rightarrow>
          (case API c of
             Some api \<Rightarrow>
               (let el' = (if truthy el then el
                           else get_property H (env s) (Obj (document c)) ''documentElement'')
                in call_method H s el' (api_key api ''requestFullscreen'') [])
           | None \<Rightarrow>
               (if truthy video then
                  (let s1 = s\<lparr>activeVideo := video\<rparr> in
                   case call_method H s1 video ''webkitEnterFullscreen'' [] of
                     (Inr r, s2) \<Rightarrow> (Inr r, s2)
                   | (Inl e, s2) \<Rightarrow> (Inr Undefined, s2\<lparr>activeVideo := Null\<rparr>))
                else (Inr Undefined, s))))"

definition exit :: "'e host \<Rightarrow> ctl \<Rightarrow> 'e state \<Rightarrow> (thrown + val) \<times> 'e state" where
  "exit H c s =
     (case API c of
        Some api \<Rightarrow> call_method H s (Obj (document c)) (api_key api ''exitFullscreen'') []
      | None \<Rightarrow>
          (if truthy (activeVideo s) then
             (let s1 = s\<lparr>activeVideo := Null\<rparr> in
              case call_method H s1 (activeVideo s1) ''webkitExitFullscreen'' [] of
                (Inr r, s2) \<Rightarrow> (Inr r, s2)
              | (Inl e, s2) \<Rightarrow> (Inr Undefined, s2))
           else (Inr Undefined, s)))"

text \<open>A call whose result is dropped: the function goes on to return \<open>undefined\<close>.\<close>

definition discard :: "(thrown + val) \<times> 'e state \<Rightarrow> (thrown + val) \<times> 'e state" where
  "discard r = (case r of (Inl x, s) \<Rightarrow> (Inl x, s) | (Inr v, s) \<Rightarrow> (Inr Undefined, s))"

definition toggle ::
  "'e host \<Rightarrow> ctl \<Rightarrow> 'e state \<Rightarrow> target \<Rightarrow> (thrown + val) \<times> 'e state" where
  "toggle H c s t =
     (case isFullscreen H c s t of
        Inl x \<Rightarrow> (Inl x, s)
      | Inr b \<Rightarrow> (if b then discard (exit H c s) else discard (request H c s t)))"

definition onChange :: "'e host \<Rightarrow> ctl \<Rightarrow> 'e state \<Rightarrow> val \<Rightarrow> (thrown + val) \<times> 'e state" where
  "onChange H c s listener =
     (case API c of
        Some api \<Rightarrow>
          discard (call_method H s (Obj (document c)) ''addEventListener''
                     [api_val api ''fullscreenchange'', listener, Bool False])
      | None \<Rightarrow> (Inr Undefined, s))"

definition offChange :: "'e host \<Rightarrow> ctl \<Rightarrow> 'e state \<Rightarrow> val \<Rightarrow> (thrown + val) \<times> 'e state" where
  "offChange H c s listener =
     (case API c of
        Some api \<Rightarrow>
          discard (call_method H s (Obj (document c)) ''removeEventListener''
                     [api_val api ''fullscreenchange'', listener, Bool False])
      | None \<Rightarrow> (Inr Undefined, s))"

definition onError :: "'e host \<Rightarrow> ctl \<Rightarrow> 'e state \<Rightarrow> val \<Rightarrow> (thrown + val) \<times> 'e state" where
  "onError H c s listener =
     (case API c of
        Some api \<Rightarrow>
          discard (call_method H s (Obj (document c)) ''addEventListener''
                     [api_val api ''fullscreenerror'', listener, Bool False])
      | None \<Rightarrow> (Inr Undefined, s))"

definition offError :: "'e host \<Rightarrow> ctl \<Rightarrow> 'e state \<Rightarrow> val \<Rightarrow> (thrown + val) \<times> 'e state" where
  "offError H c s listener =
     (case API c of
        Some api \<Rightarrow>
          discard (call_method H s (Obj (document c)) ''removeEventListener''
                     [api_val api ''fullscreenerror'', listener, Bool False])
      | None \<Rightarrow> (Inr Undefined, s))"

text \<open>
  The specification's wording of \<open>toggle\<close>, to compare with the code's:
  \<open>isFullscreen(target) ? exit() : request(target)\<close>.
\<close>

definition toggle_spec ::
  "'e host \<Rightarrow> ctl \<Rightarrow> 'e state \<Rightarrow> target \<Rightarrow> (thrown + val) \<times> 'e state" where
  "toggle_spec H c s t =
     (case isFullscreen H c s t of
        Inl x \<Rightarrow> (Inl x, s)
      | Inr b \<Rightarrow> (if b then exit H c s else request H c s t))"

text \<open>
  The values \<open>activeVideo\<close> takes: \<open>null\<close>, or the truthy \<open>video\<close> of a request.
\<close>

definition slot_ok :: "'e state \<Rightarrow> bool" where
  "slot_ok s = (activeVideo s = Null \<or> truthy (activeVideo s))"

section \<open>Example environments\<close>

text \<open>
  A platform with video-only fullscreen: the document has none of the fullscreen names,
  every object has \<open>webkitEnterFullscreen\<close>, and the environment's state is the video
  that displays fullscreen.
\<close>

definition legacy_host :: "val host" where
  "legacy_host =
     \<lparr>has_property = (\<lambda>e d name. False),
      get_property = (\<lambda>e recv name.
        if name = ''webkitEnterFullscreen'' then Obj 900
        else if name = ''webkitDisplayingFullscreen'' then Bool (recv = e)
        else Undefined),
      call_native = (\<lambda>e recv name args.
        if name = ''webkitEnterFullscreen'' then (Inr Undefined, recv)
        else if name = ''webkitExitFullscreen'' then (Inr Undefined, Null)
        else (Inl TypeError, e)),
      create_element = (\<lambda>e d tag. (1, e))\<rparr>"

text \<open>The same platform, with a native enter call that throws.\<close>

definition failing_host :: "val host" where
  "failing_host =
     legacy_host\<lparr>call_native := (\<lambda>e recv name args. (Inl (Thrown (Str ''InvalidStateError'')), e))\<rparr>"

text \<open>
  A platform with the standard names: object 0 is the document, object 1 its root
  element, and the environment's state is the current fullscreen element.
\<close>

definition standard_host :: "val host" where
  "standard_host =
     \<lparr>has_property = (\<lambda>e d name. name \<in> set (API_LIST ! 0)),
      get_property = (\<lambda>e recv name.
        if recv = Obj 0 then
          (if name = ''fullscreenElement'' then e
           else if name = ''fullscreenEnabled'' then Bool True
           else if name = ''documentElement'' then Obj 1
           else Undefined)
        else Undefined),
      call_native = (\<lambda>e recv name args.
        if name = ''requestFullscreen'' then (Inr (Obj 901), recv)
        else if name = ''exitFullscreen'' then (Inr (Obj 901), Null)
        else (Inr Undefined, e)),
      create_element = (\<lambda>e d tag. (2, e))\<rparr>"

text \<open>A document that has \<open>exitFullscreen\<close> and nothing else of the fullscreen names.\<close>

definition bare_host :: "unit host" where
  "bare_host =
     \<lparr>has_property = (\<lambda>e d name. name = ''exitFullscreen''),
      get_property = (\<lambda>e recv name. Undefined),
      call_native = (\<lambda>e recv name args. (Inl TypeError, e)),
      create_element = (\<lambda>e d tag. (1, e))\<rparr>"

definition legacy_ctl :: ctl where
  "legacy_ctl = \<lparr>API = None, TEST_VIDEO = 1, document = 0\<rparr>"

definition standard_ctl :: ctl where
  "standard_ctl = \<lparr>API = Some (zip (API_LIST ! 0) (API_LIST ! 0)), TEST_VIDEO = 2, document = 0\<rparr>"

text \<open>
  A platform with the Mozilla names only: the document has none of the standard names
  (\<open>document.fullscreenEnabled\<close> reads \<open>undefined\<close>) and its videos have no
  \<open>webkitEnterFullscreen\<close>. \<open>moz_ctl\<close> is the controller \<open>createFullscreen\<close> builds
  there: the standard names mapped to the Mozilla ones.
\<close>

definition moz_host :: "val host" where
  "moz_host =
     \<lparr>has_property = (\<lambda>e d name. name \<in> set (API_LIST ! 3)),
      get_property = (\<lambda>e recv name.
        if recv = Obj 0 then
          (if name = ''mozFullScreenElement'' then e
           else if name = ''mozFullScreenEnabled'' then Bool True
           else if name = ''documentElement'' then Obj 1
           else Undefined)
        else Undefined),
      call_native = (\<lambda>e recv name args.
        if name = ''mozRequestFullScreen'' then (Inr Undefined, recv)
        else if name = ''mozCancelFullScreen'' then (Inr Undefined, Null)
        else (Inl TypeError, e)),
      create_element = (\<lambda>e d tag. (2, e))\<rparr>"

text \<open>The same platform, with native calls that throw.\<close>

definition moz_failing_host :: "val host" where
  "moz_failing_host =
     moz_host\<lparr>call_native := (\<lambda>e recv name args. (Inl (Thrown (Str ''NotAllowedError'')), e))\<rparr>"

definition moz_ctl :: ctl where
  "moz_ctl = \<lparr>API = Some (zip (API_LIST ! 0) (API_LIST ! 3)), TEST_VIDEO = 2, document = 0\<rparr>"

section \<open>Properties of the resolver\<close>

lemma supportedApi_first:
  "i < length cs \<Longrightarrow> P (to_key (js_index (cs ! i) 1)) \<Longrightarrow>
   \<forall>j<i. \<not> P (to_key (js_index (cs ! j) 1)) \<Longrightarrow> supportedApi P cs = Some (cs ! i)"
proof (induction cs arbitrary: i)
  case Nil
  then show ?case by simp
next
  case (Cons c cs)
  show ?case
  proof (cases i)
    case 0
    with Cons.prems show ?thesis by simp
  next
    case (Suc n)
    with Cons.prems have "\<not> P (to_key (js_index c 1))" by auto
    moreover have "supportedApi P cs = Some (cs ! n)"
      using Cons.prems Suc by (intro Cons.IH) auto
    ultimately show ?thesis using Suc by simp
  qed
qed

lemma supportedApi_none:
  "\<forall>b\<in>set cs. \<not> P (to_key (js_index b 1)) \<Longrightarrow> supportedApi P cs = None"
  by (induction cs) auto

lemma supportedApi_mem: "supportedApi P cs = Some b \<Longrightarrow> b \<in> set cs"
  by (induction cs) (auto split: if_splits)

lemma reduce_api_total: "\<exists>r. reduce_api (Some std) i acc fs = Inr r"
  by (induction fs arbitrary: i acc) auto

lemma map_of_obj_set:
  "map_of (obj_set obj k v) x = (if k = ''__proto__'' then map_of obj x else ((map_of obj)(k \<mapsto> v)) x)"
  by (simp add: obj_set_def update_conv')

lemma reduce_api_untouched:
  "reduce_api (Some std) i acc fs = Inr r \<Longrightarrow>
   \<forall>j. i \<le> j \<and> j < i + length fs \<longrightarrow> to_key (js_index std j) \<noteq> x \<Longrightarrow>
   map_of r x = map_of acc x"
proof (induction fs arbitrary: i acc)
  case Nil
  then show ?case by simp
next
  case (Cons f fs)
  from Cons.prems(1)
  have step: "reduce_api (Some std) (Suc i) (obj_set acc (to_key (js_index std i)) f) fs = Inr r"
    by simp
  have "map_of r x = map_of (obj_set acc (to_key (js_index std i)) f) x"
    using Cons.prems(2) by (intro Cons.IH [OF step]) auto
  moreover have "to_key (js_index std i) \<noteq> x" using Cons.prems(2) by auto
  ultimately show ?case by (simp add: map_of_obj_set)
qed

lemma reduce_api_last:
  "reduce_api (Some std) i acc fs = Inr r \<Longrightarrow> i \<le> k \<Longrightarrow> k < i + length fs \<Longrightarrow>
   to_key (js_index std k) \<noteq> ''__proto__'' \<Longrightarrow>
   \<forall>k'. k < k' \<and> k' < i + length fs \<longrightarrow> to_key (js_index std k') \<noteq> to_key (js_index std k) \<Longrightarrow>
   map_of r (to_key (js_index std k)) = Some (fs ! (k - i))"
proof (induction fs arbitrary: i acc)
  case Nil
  then show ?case by simp
next
  case (Cons f fs)
  from Cons.prems(1)
  have step: "reduce_api (Some std) (Suc i) (obj_set acc (to_key (js_index std i)) f) fs = Inr r"
    by simp
  show ?case
  proof (cases "k = i")
    case True
    have "map_of r (to_key (js_index std k))
            = map_of (obj_set acc (to_key (js_index std i)) f) (to_key (js_index std k))"
      using Cons.prems(5) True by (intro reduce_api_untouched [OF step]) auto
    with True Cons.prems(4) show ?thesis by (simp add: map_of_obj_set)
  next
    case False
    with Cons.prems have "map_of r (to_key (js_index std k)) = Some (fs ! (k - Suc i))"
      by (intro Cons.IH [OF step]) auto
    moreover from False Cons.prems(2) have "(f # fs) ! (k - i) = fs ! (k - Suc i)"
      by (simp add: nth_Cons')
    ultimately show ?thesis by simp
  qed
qed

lemma keys_obj_set:
  "fst ` set (obj_set obj k v) = (if k = ''__proto__'' then fst ` set obj else insert k (fst ` set obj))"
  by (simp add: obj_set_def update_conv' flip: dom_map_of_conv_image_fst)

lemma reduce_api_keys:
  "reduce_api (Some std) i acc fs = Inr r \<Longrightarrow>
   fst ` set r = fst ` set acc \<union> ((\<lambda>j. to_key (js_index std j)) ` {i..<i + length fs} - {''__proto__''})"
proof (induction fs arbitrary: i acc)
  case Nil
  then show ?case by simp
next
  case (Cons f fs)
  from Cons.prems
  have step: "reduce_api (Some std) (Suc i) (obj_set acc (to_key (js_index std i)) f) fs = Inr r"
    by simp
  have split: "{i..<i + length (f # fs)} = insert i {Suc i..<Suc i + length fs}"
    by auto
  show ?case
    unfolding Cons.IH [OF step] split keys_obj_set by auto
qed

lemma six_key: "length b = 6 \<Longrightarrow> k < 6 \<Longrightarrow> to_key (js_index b k) = b ! k"
  by (simp add: to_key_def js_index_def)

text \<open>
  C1 (amended). For every list of six-name bundles and every document, if \<open>i\<close> is the
  smallest index whose bundle has its exit-method name \<open>candidates[i][1]\<close> in the
  document, the loop selects bundle \<open>i\<close> and \<open>findSupported\<close> returns an object whose
  keys are the names of \<open>candidates[0]\<close> other than \<open>__proto__\<close>; at every position
  \<open>k\<close> whose key is not \<open>__proto__\<close> and does not occur again at a later position of
  \<open>candidates[0]\<close>, the value under \<open>candidates[0][k]\<close> is \<open>candidates[i][k]\<close>. When
  the six names of \<open>candidates[0]\<close> are distinct and none is \<open>__proto__\<close>, the keys are
  exactly the six names of \<open>candidates[0]\<close> and the values are those of \<open>candidates[i]\<close>,
  position for position.
\<close>

theorem findSupported_first_match:
  assumes six: "\<forall>b\<in>set candidates. length b = 6"
    and i: "i < length candidates"
    and here: "inDocument (candidates ! i ! 1)"
    and first: "\<forall>j<i. \<not> inDocument (candidates ! j ! 1)"
  shows "\<exists>m. supportedApi inDocument candidates = Some (candidates ! i)
           \<and> findSupported candidates inDocument = Inr (Some m)
           \<and> fst ` set m = set (candidates ! 0) - {''__proto__''}
           \<and> (\<forall>k<6. candidates ! 0 ! k \<noteq> ''__proto__''
                  \<and> (\<forall>k'<6. k < k' \<longrightarrow> candidates ! 0 ! k' \<noteq> candidates ! 0 ! k)
                \<longrightarrow> obj_get m (candidates ! 0 ! k) = Some (candidates ! i ! k))
           \<and> (distinct (candidates ! 0) \<and> ''__proto__'' \<notin> set (candidates ! 0)
                \<longrightarrow> fst ` set m = set (candidates ! 0)
                    \<and> (\<forall>k<6. obj_get m (candidates ! 0 ! k) = Some (candidates ! i ! k)))"
proof -
  let ?std = "candidates ! 0" and ?api = "candidates ! i"
  have ne: "candidates \<noteq> []" using i by (cases candidates) simp_all
  then have "0 < length candidates" by simp
  then have "?std \<in> set candidates" "?api \<in> set candidates"
    using i by (simp_all only: nth_mem)
  then have len: "length ?std = 6" "length ?api = 6"
    using six by simp_all
  have keys: "\<And>j. j < length candidates \<Longrightarrow> to_key (js_index (candidates ! j) 1) = candidates ! j ! 1"
    using six by (simp add: six_key)
  have sel: "supportedApi inDocument candidates = Some ?api"
    using i here first keys by (intro supportedApi_first) auto
  have std: "js_index candidates 0 = Some ?std"
    using ne by (simp add: js_index_def)
  obtain m where m: "reduce_api (Some ?std) 0 [] ?api = Inr m"
    using reduce_api_total by blast
  have res: "findSupported candidates inDocument = Inr (Some m)"
    by (simp add: findSupported_def sel std m)
  have "fst ` set m = (\<lambda>j. ?std ! j) ` {0..<6} - {''__proto__''}"
    using reduce_api_keys [OF m] len by (simp add: six_key cong: image_cong_simp)
  also have "(\<lambda>j. ?std ! j) ` {0..<6} = set ?std"
    using len(1) nth_image [of 6 ?std] by simp
  finally have dom: "fst ` set m = set ?std - {''__proto__''}" .
  have pos: "obj_get m (?std ! k) = Some (?api ! k)"
    if k: "k < 6" and np: "?std ! k \<noteq> ''__proto__''"
      and last: "\<forall>k'<6. k < k' \<longrightarrow> ?std ! k' \<noteq> ?std ! k" for k
  proof -
    have "map_of m (to_key (js_index ?std k)) = Some (?api ! (k - 0))"
    proof (rule reduce_api_last [OF m])
      show "0 \<le> k" by simp
      show "k < 0 + length ?api" using k len by simp
      show "to_key (js_index ?std k) \<noteq> ''__proto__''" using k np len by (simp add: six_key)
      show "\<forall>k'. k < k' \<and> k' < 0 + length ?api \<longrightarrow>
              to_key (js_index ?std k') \<noteq> to_key (js_index ?std k)"
        using k last len by (simp add: six_key)
    qed
    then show ?thesis using k len by (simp add: obj_get_def six_key)
  qed
  have all: "obj_get m (?std ! k) = Some (?api ! k)"
    if d: "distinct ?std" and np: "''__proto__'' \<notin> set ?std" and k: "k < 6" for k
  proof (rule pos [OF k])
    show "?std ! k \<noteq> ''__proto__''"
      using np k len(1) by (metis nth_mem)
    show "\<forall>k'<6. k < k' \<longrightarrow> ?std ! k' \<noteq> ?std ! k"
      using d k len(1) by (simp add: nth_eq_iff_index_eq)
  qed
  show ?thesis
  proof (intro exI [of _ m] conjI allI impI)
    show "supportedApi inDocument candidates = Some ?api" by (rule sel)
    show "findSupported candidates inDocument = Inr (Some m)" by (rule res)
    show "fst ` set m = set ?std - {''__proto__''}" by (rule dom)
    show "obj_get m (?std ! k) = Some (?api ! k)"
      if "k < 6"
        and "?std ! k \<noteq> ''__proto__'' \<and> (\<forall>k'<6. k < k' \<longrightarrow> ?std ! k' \<noteq> ?std ! k)" for k
      using that pos by simp
    show "fst ` set m = set ?std" if "distinct ?std \<and> ''__proto__'' \<notin> set ?std"
      using that dom by simp
    show "obj_get m (?std ! k) = Some (?api ! k)"
      if "distinct ?std \<and> ''__proto__'' \<notin> set ?std" and "k < 6" for k
      using that all by simp
  qed
qed

text \<open>
  The scenario of the specification: a document with the old WebKit names (and the
  Microsoft ones, which come later in the list) resolves to the third bundle.
\<close>

theorem findSupported_first_match_witness:
  "\<exists>m. findSupported API_LIST
          (\<lambda>name. name = ''webkitCancelFullScreen'' \<or> name = ''msExitFullscreen'')
        = Inr (Some m)
      \<and> fst ` set m = set (API_LIST ! 0)
      \<and> obj_get m ''requestFullscreen'' = Some ''webkitRequestFullScreen''
      \<and> obj_get m ''fullscreenEnabled'' = Some ''webkitCancelFullScreen''"
proof -
  let ?P = "\<lambda>name. name = ''webkitCancelFullScreen'' \<or> name = ''msExitFullscreen''"
  have six: "\<forall>b\<in>set API_LIST. length b = 6" by (simp add: API_LIST_def)
  have i: "2 < length API_LIST" by (simp add: API_LIST_def)
  have here: "?P (API_LIST ! 2 ! 1)" by (simp add: API_LIST_def)
  have first: "\<forall>j<2. \<not> ?P (API_LIST ! j ! 1)"
    by (simp add: API_LIST_def less_Suc_eq numeral_2_eq_2)
  have d: "distinct (API_LIST ! 0) \<and> ''__proto__'' \<notin> set (API_LIST ! 0)"
    by (simp add: API_LIST_def)
  from findSupported_first_match [OF six i here first] d
  obtain m where m: "findSupported API_LIST ?P = Inr (Some m)"
    and dom: "fst ` set m = set (API_LIST ! 0)"
    and pos: "\<forall>k<6. obj_get m (API_LIST ! 0 ! k) = Some (API_LIST ! 2 ! k)"
    by blast
  from pos have "obj_get m (API_LIST ! 0 ! 0) = Some (API_LIST ! 2 ! 0)"
    and "obj_get m (API_LIST ! 0 ! 3) = Some (API_LIST ! 2 ! 3)"
    by simp_all
  then have "obj_get m ''requestFullscreen'' = Some ''webkitRequestFullScreen''"
    and "obj_get m ''fullscreenEnabled'' = Some ''webkitCancelFullScreen''"
    by (simp_all add: API_LIST_def)
  with m dom show ?thesis by blast
qed

text \<open>
  As stated for every list of six-name bundles, C1 fails where \<open>candidates[0]\<close> repeats
  a name. The third bundle of \<open>API_LIST\<close> has \<open>webkitCancelFullScreen\<close> at
  positions 1 and 3; with the three prefixed bundles as the list and a document that has
  only \<open>mozCancelFullScreen\<close>, bundle 1 is selected, the object has five keys, and the
  key of position 1 holds the name of position 3.
\<close>

theorem findSupported_duplicate_key_counterexample:
  "length (drop 2 API_LIST ! 0) = 6 \<and> length (drop 2 API_LIST ! 1) = 6
   \<and> length (drop 2 API_LIST ! 2) = 6 \<and> length (drop 2 API_LIST) = 3
   \<and> \<not> (drop 2 API_LIST ! 0 ! 1 = ''mozCancelFullScreen'')
   \<and> drop 2 API_LIST ! 1 ! 1 = ''mozCancelFullScreen''
   \<and> findSupported (drop 2 API_LIST) (\<lambda>name. name = ''mozCancelFullScreen'')
       = Inr (Some [(''webkitRequestFullScreen'', ''mozRequestFullScreen''),
                    (''webkitCancelFullScreen'', ''mozFullScreenEnabled''),
                    (''webkitCurrentFullScreenElement'', ''mozFullScreenElement''),
                    (''webkitfullscreenchange'', ''mozfullscreenchange''),
                    (''webkitfullscreenerror'', ''mozfullscreenerror'')])
   \<and> drop 2 API_LIST ! 0 ! 1 = ''webkitCancelFullScreen''
   \<and> obj_get [(''webkitRequestFullScreen'', ''mozRequestFullScreen''),
               (''webkitCancelFullScreen'', ''mozFullScreenEnabled''),
               (''webkitCurrentFullScreenElement'', ''mozFullScreenElement''),
               (''webkitfullscreenchange'', ''mozfullscreenchange''),
               (''webkitfullscreenerror'', ''mozfullscreenerror'')]
        (drop 2 API_LIST ! 0 ! 1) \<noteq> Some (drop 2 API_LIST ! 1 ! 1)"
  by code_simp

text \<open>
  C7. For every candidate list and every document, if no bundle's exit-method name is in
  the document, \<open>findSupported\<close> returns \<open>null\<close>: a normal result, not a throw.
\<close>

theorem findSupported_absent:
  assumes "\<forall>b\<in>set candidates. \<not> inDocument (to_key (js_index b 1))"
  shows "findSupported candidates inDocument = Inr None"
  using supportedApi_none [OF assms] by (simp add: findSupported_def)

theorem findSupported_absent_witness:
  "findSupported API_LIST (\<lambda>name. name = ''webkitEnterFullscreen'') = Inr None"
proof -
  have "\<forall>b\<in>set API_LIST. \<not> (to_key (js_index b 1) = ''webkitEnterFullscreen'')"
    by (simp add: API_LIST_def js_index_def to_key_def)
  then show ?thesis by (rule findSupported_absent)
qed

text \<open>\<open>findSupported\<close> throws on no input: \<open>standardApi\<close> is indexed only after a match.\<close>

lemma findSupported_never_throws: "\<exists>r. findSupported candidates inDocument = Inr r"
proof (cases "supportedApi inDocument candidates")
  case None
  then show ?thesis by (simp add: findSupported_def)
next
  case (Some api)
  then have "candidates \<noteq> []" by (cases candidates) auto
  then have "js_index candidates 0 = Some (candidates ! 0)" by (simp add: js_index_def)
  moreover obtain m where "reduce_api (Some (candidates ! 0)) 0 [] api = Inr m"
    using reduce_api_total by blast
  ultimately show ?thesis using Some by (simp add: findSupported_def)
qed

section \<open>Properties of the controller\<close>

subsection \<open>The slot \<open>activeVideo\<close>\<close>

text \<open>
  A native call does not touch the slot, and the slot holds \<open>null\<close> or a truthy value in
  every state the controller reaches: at creation, and after each operation.
\<close>

lemma call_method_slot [simp]: "activeVideo (snd (call_method H s recv name args)) = activeVideo s"
  by (simp add: call_method_def split: prod.splits)

lemma discard_snd [simp]: "snd (discard r) = snd r"
  by (simp add: discard_def split: prod.splits sum.splits)

lemma slot_ok_truthy: "slot_ok s \<Longrightarrow> truthy (activeVideo s) = (activeVideo s \<noteq> Null)"
  by (auto simp: slot_ok_def)

lemma createFullscreen_slot_ok: "createFullscreen H apiList doc e = Inr (c, s) \<Longrightarrow> slot_ok s"
  by (auto simp: createFullscreen_def slot_ok_def split: sum.splits prod.splits)

lemma request_slot_ok: "slot_ok s \<Longrightarrow> slot_ok (snd (request H c s t))"
  by (cases t)
     (auto simp: request_def slot_ok_def Let_def call_method_def
           split: option.splits prod.splits sum.splits)

lemma exit_slot_ok: "slot_ok s \<Longrightarrow> slot_ok (snd (exit H c s))"
  by (auto simp: exit_def slot_ok_def Let_def call_method_def
           split: option.splits prod.splits sum.splits)

lemma toggle_slot_ok: "slot_ok s \<Longrightarrow> slot_ok (snd (toggle H c s t))"
  by (auto simp: toggle_def request_slot_ok exit_slot_ok split: sum.splits)

lemma listeners_slot_ok:
  assumes "slot_ok s"
  shows "slot_ok (snd (onChange H c s l))" and "slot_ok (snd (offChange H c s l))"
    and "slot_ok (snd (onError H c s l))" and "slot_ok (snd (offError H c s l))"
  using assms
  by (simp_all add: onChange_def offChange_def onError_def offError_def slot_ok_def
        split: option.splits)

subsection \<open>Legacy mode: \<open>exit\<close> and \<open>request\<close>\<close>

text \<open>
  C2. In legacy mode (\<open>API\<close> is \<open>null\<close>), \<open>exit()\<close> with a non-null slot returns
  \<open>undefined\<close> without throwing and leaves the slot \<open>null\<close>; the environment and the log
  of calls are as before, so the video's native exit was never invoked: the slot is
  cleared first, and the call on the cleared slot is the TypeError of a \<open>null\<close> receiver,
  which the \<open>catch\<close> swallows.
\<close>

theorem exit_legacy_clears_slot:
  assumes "API c = None" and "activeVideo s \<noteq> Null" and "slot_ok s"
  shows "exit H c s = (Inr Undefined, s\<lparr>activeVideo := Null\<rparr>)
         \<and> call_method H (s\<lparr>activeVideo := Null\<rparr>) (activeVideo (s\<lparr>activeVideo := Null\<rparr>))
              ''webkitExitFullscreen'' [] = (Inl TypeError, s\<lparr>activeVideo := Null\<rparr>)"
  using assms by (simp add: exit_def slot_ok_truthy call_method_def)

theorem exit_legacy_clears_slot_witness:
  "exit legacy_host legacy_ctl \<lparr>env = Obj 7, activeVideo = Obj 7, trace = []\<rparr>
     = (Inr Undefined, \<lparr>env = Obj 7, activeVideo = Null, trace = []\<rparr>)"
  using exit_legacy_clears_slot
          [of legacy_ctl "\<lparr>env = Obj 7, activeVideo = Obj 7, trace = []\<rparr>" legacy_host]
  by (simp add: legacy_ctl_def slot_ok_def)

text \<open>
  C3. In legacy mode, for every video \<open>V\<close>, \<open>request({video: V})\<close> makes the native
  \<open>webkitEnterFullscreen\<close> call on \<open>V\<close> from the state whose slot is already \<open>V\<close>. If the
  call returns, its result is returned and the slot stays \<open>V\<close>; if it throws, the slot is
  \<open>null\<close> afterwards and \<open>request\<close> returns \<open>undefined\<close>. In neither case does
  \<open>request\<close> throw.
\<close>

theorem request_legacy_rollback:
  assumes "API c = None" and "truthy V"
  shows "request H c s (Target el V)
           = (case call_method H (s\<lparr>activeVideo := V\<rparr>) V ''webkitEnterFullscreen'' [] of
                (Inr r, s2) \<Rightarrow> (Inr r, s2)
              | (Inl x, s2) \<Rightarrow> (Inr Undefined, s2\<lparr>activeVideo := Null\<rparr>))
         \<and> (\<forall>r e'. call_native H (env s) V ''webkitEnterFullscreen'' [] = (Inr r, e') \<longrightarrow>
               request H c s (Target el V)
                 = (Inr r, \<lparr>env = e', activeVideo = V,
                            trace = trace s @ [Call V ''webkitEnterFullscreen'' []]\<rparr>))
         \<and> (\<forall>x e'. call_native H (env s) V ''webkitEnterFullscreen'' [] = (Inl x, e') \<longrightarrow>
               request H c s (Target el V)
                 = (Inr Undefined, \<lparr>env = e', activeVideo = Null,
                                    trace = trace s @ [Call V ''webkitEnterFullscreen'' []]\<rparr>))
         \<and> (\<exists>r. fst (request H c s (Target el V)) = Inr r)"
proof -
  from assms(2) have nn: "\<not> nullish V" by (cases V) simp_all
  show ?thesis
    using assms nn
    by (auto simp: request_def call_method_def Let_def split: prod.splits sum.splits)
qed

theorem request_legacy_rollback_witness:
  "request failing_host legacy_ctl \<lparr>env = Null, activeVideo = Null, trace = []\<rparr>
       (Target Undefined (Obj 7))
     = (Inr Undefined,
        \<lparr>env = Null, activeVideo = Null, trace = [Call (Obj 7) ''webkitEnterFullscreen'' []]\<rparr>)
   \<and> request legacy_host legacy_ctl \<lparr>env = Null, activeVideo = Null, trace = []\<rparr>
       (Target Undefined (Obj 7))
     = (Inr Undefined,
        \<lparr>env = Obj 7, activeVideo = Obj 7, trace = [Call (Obj 7) ''webkitEnterFullscreen'' []]\<rparr>)"
  using request_legacy_rollback
          [of legacy_ctl "Obj 7" failing_host "\<lparr>env = Null, activeVideo = Null, trace = []\<rparr>" Undefined]
        request_legacy_rollback
          [of legacy_ctl "Obj 7" legacy_host "\<lparr>env = Null, activeVideo = Null, trace = []\<rparr>" Undefined]
  by (simp add: legacy_ctl_def failing_host_def legacy_host_def call_method_def)

text \<open>
  C10. In legacy mode an operation whose guard is unmet returns \<open>undefined\<close> and changes
  nothing, neither the slot nor the environment nor the log of calls: \<open>request\<close> with no
  argument or with a target that has no (truthy) \<open>video\<close>, and \<open>exit\<close> while the slot is
  \<open>null\<close>.
\<close>

theorem legacy_unmet_guard_noop:
  assumes "API c = None"
  shows "request H c s NoTarget = (Inr Undefined, s)
         \<and> (\<not> truthy video \<longrightarrow> request H c s (Target el video) = (Inr Undefined, s))
         \<and> (activeVideo s = Null \<longrightarrow> exit H c s = (Inr Undefined, s))"
  using assms by (simp add: request_def exit_def)

theorem legacy_unmet_guard_noop_witness:
  "request legacy_host legacy_ctl \<lparr>env = Null, activeVideo = Null, trace = []\<rparr> NoTarget
     = (Inr Undefined, \<lparr>env = Null, activeVideo = Null, trace = []\<rparr>)
   \<and> request legacy_host legacy_ctl \<lparr>env = Null, activeVideo = Null, trace = []\<rparr>
       (Target (Obj 5) Undefined)
     = (Inr Undefined, \<lparr>env = Null, activeVideo = Null, trace = []\<rparr>)
   \<and> exit legacy_host legacy_ctl \<lparr>env = Null, activeVideo = Null, trace = []\<rparr>
     = (Inr Undefined, \<lparr>env = Null, activeVideo = Null, trace = []\<rparr>)"
  using legacy_unmet_guard_noop
          [of legacy_ctl legacy_host "\<lparr>env = Null, activeVideo = Null, trace = []\<rparr>" Undefined "Obj 5"]
  by (simp add: legacy_ctl_def)

text \<open>
  C9. In legacy mode \<open>onChange\<close>, \<open>offChange\<close>, \<open>onError\<close> and \<open>offError\<close> return
  \<open>undefined\<close> with the state as it was: no listener is added or removed, no call
  reaches the environment.
\<close>

theorem legacy_listeners_noop:
  assumes "API c = None"
  shows "onChange H c s listener = (Inr Undefined, s)
         \<and> offChange H c s listener = (Inr Undefined, s)
         \<and> onError H c s listener = (Inr Undefined, s)
         \<and> offError H c s listener = (Inr Undefined, s)"
  using assms by (simp add: onChange_def offChange_def onError_def offError_def)

theorem legacy_listeners_noop_witness:
  "onChange legacy_host legacy_ctl \<lparr>env = Null, activeVideo = Obj 7, trace = []\<rparr> (Obj 8)
     = (Inr Undefined, \<lparr>env = Null, activeVideo = Obj 7, trace = []\<rparr>)
   \<and> offError legacy_host legacy_ctl \<lparr>env = Null, activeVideo = Obj 7, trace = []\<rparr> (Obj 8)
     = (Inr Undefined, \<lparr>env = Null, activeVideo = Obj 7, trace = []\<rparr>)"
  using legacy_listeners_noop
          [of legacy_ctl legacy_host "\<lparr>env = Null, activeVideo = Obj 7, trace = []\<rparr>" "Obj 8"]
  by (simp add: legacy_ctl_def)

subsection \<open>The queries\<close>

text \<open>
  C4. For every environment, \<open>enabled\<close> is the disjunction of the two capabilities: the
  mapping is present and the document's value under the resolved enabled-property, the
  name the mapping holds for \<open>fullscreenEnabled\<close>, is truthy; or the probe video's
  \<open>webkitEnterFullscreen\<close> is truthy. With no mapping it is the video test alone. (A
  mapping without that key gives \<open>undefined\<close>, read as the property \<open>"undefined"\<close>.)
\<close>

theorem enabled_is_or:
  "enabled H c s
     = ((case API c of
           None \<Rightarrow> False
         | Some api \<Rightarrow>
             truthy (get_property H (env s) (Obj (document c))
                       (case map_of api ''fullscreenEnabled'' of
                          None \<Rightarrow> ''undefined''
                        | Some name \<Rightarrow> name)))
        \<or> truthy (get_property H (env s) (Obj (TEST_VIDEO c)) ''webkitEnterFullscreen''))
   \<and> enabled H (c\<lparr>API := None\<rparr>) s
     = truthy (get_property H (env s) (Obj (TEST_VIDEO c)) ''webkitEnterFullscreen'')"
  by (simp add: enabled_def Let_def api_key_def to_key_def obj_get_def split: option.splits)

text \<open>
  Two platforms. The scenario of the specification: no bundle's exit name in the
  document, a probe video with the legacy entry point; \<open>api\<close> is \<open>null\<close> and \<open>enabled\<close>
  is true by the video test. And the Mozilla platform: the mapping sends
  \<open>fullscreenEnabled\<close> to \<open>mozFullScreenEnabled\<close>, the only one of the three properties
  that is truthy there, and \<open>enabled\<close> is true by the standard path.
\<close>

theorem enabled_is_or_witness:
  "createFullscreen legacy_host API_LIST 0 Null
     = Inr (legacy_ctl,
            \<lparr>env = Null, activeVideo = Null,
             trace = [Call (Obj 0) ''createElement'' [Str ''video'']]\<rparr>)
   \<and> enabled legacy_host legacy_ctl
        \<lparr>env = Null, activeVideo = Null,
         trace = [Call (Obj 0) ''createElement'' [Str ''video'']]\<rparr>
   \<and> createFullscreen moz_host API_LIST 0 Null
     = Inr (moz_ctl,
            \<lparr>env = Null, activeVideo = Null,
             trace = [Call (Obj 0) ''createElement'' [Str ''video'']]\<rparr>)
   \<and> map_of (zip (API_LIST ! 0) (API_LIST ! 3)) ''fullscreenEnabled''
     = Some ''mozFullScreenEnabled''
   \<and> get_property moz_host Null (Obj 0) ''mozFullScreenEnabled'' = Bool True
   \<and> get_property moz_host Null (Obj 0) ''fullscreenEnabled'' = Undefined
   \<and> get_property moz_host Null (Obj 2) ''webkitEnterFullscreen'' = Undefined
   \<and> enabled moz_host moz_ctl
        \<lparr>env = Null, activeVideo = Null,
         trace = [Call (Obj 0) ''createElement'' [Str ''video'']]\<rparr>"
proof -
  let ?s = "\<lparr>env = Null, activeVideo = Null,
             trace = [Call (Obj 0) ''createElement'' [Str ''video'']]\<rparr>"
  have entry: "map_of (zip (API_LIST ! 0) (API_LIST ! 3)) ''fullscreenEnabled''
                 = Some ''mozFullScreenEnabled''"
    by (simp add: API_LIST_def)
  have legacy: "enabled legacy_host legacy_ctl ?s"
    using enabled_is_or [of legacy_host legacy_ctl ?s]
    by (simp add: legacy_host_def legacy_ctl_def)
  have moz: "enabled moz_host moz_ctl ?s"
    using enabled_is_or [of moz_host moz_ctl ?s] entry
    by (simp add: moz_host_def moz_ctl_def)
  have created:
    "createFullscreen legacy_host API_LIST 0 Null = Inr (legacy_ctl, ?s)"
    "createFullscreen moz_host API_LIST 0 Null = Inr (moz_ctl, ?s)"
    by (simp_all add: createFullscreen_def findSupported_def API_LIST_def legacy_host_def
          moz_host_def legacy_ctl_def moz_ctl_def js_index_def to_key_def obj_set_def)
  have reads:
    "get_property moz_host Null (Obj 0) ''mozFullScreenEnabled'' = Bool True"
    "get_property moz_host Null (Obj 0) ''fullscreenEnabled'' = Undefined"
    "get_property moz_host Null (Obj 2) ''webkitEnterFullscreen'' = Undefined"
    by (simp_all add: moz_host_def)
  from created legacy moz entry reads show ?thesis by simp
qed

text \<open>
  C5 (amended). In standard mode, \<open>isFullscreen({el: X})\<close> for an element \<open>X\<close> (any truthy
  \<open>X\<close>) is true iff \<open>X\<close> is the current fullscreen element, and \<open>isFullscreen()\<close> with no
  argument is true iff the current element is truthy; where the document's value is an
  element or \<open>null\<close>, that is iff it is not \<open>null\<close>. In legacy mode,
  \<open>isFullscreen({video: V})\<close> for a video \<open>V\<close> is true iff \<open>V\<close> is the current element,
  \<open>isFullscreen()\<close> is true iff the current element is not \<open>null\<close>, and the current
  element is the tracked video while its native flag reads true, \<open>null\<close> otherwise.
\<close>

theorem isFullscreen_standard_and_legacy:
  "(API c \<noteq> None \<longrightarrow>
      (truthy X \<longrightarrow> isFullscreen H c s (Target X v) = Inr (X = element H c s))
      \<and> isFullscreen H c s NoTarget = Inr (truthy (element H c s))
      \<and> (element H c s = Null \<or> (\<exists>r. element H c s = Obj r) \<longrightarrow>
           isFullscreen H c s NoTarget = Inr (element H c s \<noteq> Null)))
   \<and> (API c = None \<longrightarrow>
      (truthy V \<longrightarrow> isFullscreen H c s (Target el V) = Inr (V = element H c s))
      \<and> isFullscreen H c s NoTarget = Inr (element H c s \<noteq> Null)
      \<and> element H c s
          = (if truthy (activeVideo s)
                \<and> truthy (get_property H (env s) (activeVideo s) ''webkitDisplayingFullscreen'')
             then activeVideo s else Null))"
  by (auto simp: isFullscreen_def element_def split: option.splits)

theorem isFullscreen_standard_and_legacy_witness:
  "isFullscreen standard_host standard_ctl \<lparr>env = Obj 5, activeVideo = Null, trace = []\<rparr>
     (Target (Obj 5) Undefined) = Inr True
   \<and> isFullscreen standard_host standard_ctl \<lparr>env = Null, activeVideo = Null, trace = []\<rparr>
     NoTarget = Inr False
   \<and> isFullscreen legacy_host legacy_ctl \<lparr>env = Obj 7, activeVideo = Obj 7, trace = []\<rparr>
     (Target Undefined (Obj 7)) = Inr True
   \<and> isFullscreen legacy_host legacy_ctl \<lparr>env = Null, activeVideo = Obj 7, trace = []\<rparr>
     NoTarget = Inr False"
  using isFullscreen_standard_and_legacy
          [of standard_ctl "Obj 5" standard_host "\<lparr>env = Obj 5, activeVideo = Null, trace = []\<rparr>"]
        isFullscreen_standard_and_legacy
          [of standard_ctl "Obj 5" standard_host "\<lparr>env = Null, activeVideo = Null, trace = []\<rparr>"]
        isFullscreen_standard_and_legacy
          [of legacy_ctl _ legacy_host "\<lparr>env = Obj 7, activeVideo = Obj 7, trace = []\<rparr>" _ "Obj 7"]
        isFullscreen_standard_and_legacy
          [of legacy_ctl _ legacy_host "\<lparr>env = Null, activeVideo = Obj 7, trace = []\<rparr>" _ "Obj 7"]
  by (simp add: standard_ctl_def legacy_ctl_def standard_host_def legacy_host_def element_def
        api_key_def obj_get_def to_key_def API_LIST_def)

text \<open>
  As stated, C5 fails in standard mode for the call with no argument: a document that
  has \<open>exitFullscreen\<close> resolves to the standard bundle, and where it has no
  \<open>fullscreenElement\<close> the current element reads \<open>undefined\<close>, which is not \<open>null\<close>,
  while \<open>isFullscreen()\<close> is false.
\<close>

theorem isFullscreen_undefined_element_counterexample:
  "createFullscreen bare_host API_LIST 0 ()
     = Inr (\<lparr>API = Some (zip (API_LIST ! 0) (API_LIST ! 0)), TEST_VIDEO = 1, document = 0\<rparr>,
            \<lparr>env = (), activeVideo = Null,
             trace = [Call (Obj 0) ''createElement'' [Str ''video'']]\<rparr>)
   \<and> element bare_host
        \<lparr>API = Some (zip (API_LIST ! 0) (API_LIST ! 0)), TEST_VIDEO = 1, document = 0\<rparr>
        \<lparr>env = (), activeVideo = Null, trace = [Call (Obj 0) ''createElement'' [Str ''video'']]\<rparr>
       = Undefined
   \<and> Undefined \<noteq> Null
   \<and> isFullscreen bare_host
        \<lparr>API = Some (zip (API_LIST ! 0) (API_LIST ! 0)), TEST_VIDEO = 1, document = 0\<rparr>
        \<lparr>env = (), activeVideo = Null, trace = [Call (Obj 0) ''createElement'' [Str ''video'']]\<rparr>
        NoTarget
       = Inr False"
  by (simp add: createFullscreen_def findSupported_def API_LIST_def bare_host_def js_index_def
        to_key_def obj_set_def element_def isFullscreen_def)

subsection \<open>Standard mode: \<open>request\<close>\<close>

text \<open>
  C8. In standard mode \<open>request\<close> calls the resolved request-method, the name the
  mapping holds for \<open>requestFullscreen\<close>, on \<open>el\<close>, or on \<open>document.documentElement\<close>
  when \<open>el\<close> is not given, and its outcome is the outcome of that call: for an element
  \<open>el\<close>, the value the native call returns or the failure it throws, unchanged, with
  that one call added to the log. (A mapping without that key gives \<open>undefined\<close>, called
  as the method \<open>"undefined"\<close>.)
\<close>

theorem request_standard_forwards:
  assumes "API c = Some api"
    and "name = (case map_of api ''requestFullscreen'' of None \<Rightarrow> ''undefined'' | Some n \<Rightarrow> n)"
  shows "request H c s (Target el v)
           = call_method H s
               (if truthy el then el
                else get_property H (env s) (Obj (document c)) ''documentElement'')
               name []
         \<and> request H c s NoTarget
           = call_method H s (get_property H (env s) (Obj (document c)) ''documentElement'')
               name []
         \<and> request H c s (Target (Obj x) v)
           = (fst (call_native H (env s) (Obj x) name []),
              s\<lparr>env := snd (call_native H (env s) (Obj x) name []),
                trace := trace s @ [Call (Obj x) name []]\<rparr>)"
proof -
  have key: "api_key api ''requestFullscreen'' = name"
    using assms(2) by (simp add: api_key_def to_key_def obj_get_def)
  show ?thesis
    using assms(1) by (simp add: request_def call_method_def Let_def key split: prod.splits)
qed

text \<open>
  The scenario of the specification, where the mapping holds \<open>requestFullscreen\<close> for
  itself; the Mozilla platform, where the method called on the element and on the root
  element is \<open>mozRequestFullScreen\<close>; and a native call that throws, whose failure
  reaches the caller.
\<close>

theorem request_standard_forwards_witness:
  "request standard_host standard_ctl \<lparr>env = Null, activeVideo = Null, trace = []\<rparr>
       (Target (Obj 5) Undefined)
     = (Inr (Obj 901),
        \<lparr>env = Obj 5, activeVideo = Null, trace = [Call (Obj 5) ''requestFullscreen'' []]\<rparr>)
   \<and> request moz_host moz_ctl \<lparr>env = Null, activeVideo = Null, trace = []\<rparr>
       (Target (Obj 5) Undefined)
     = (Inr Undefined,
        \<lparr>env = Obj 5, activeVideo = Null, trace = [Call (Obj 5) ''mozRequestFullScreen'' []]\<rparr>)
   \<and> request moz_host moz_ctl \<lparr>env = Null, activeVideo = Null, trace = []\<rparr> NoTarget
     = (Inr Undefined,
        \<lparr>env = Obj 1, activeVideo = Null, trace = [Call (Obj 1) ''mozRequestFullScreen'' []]\<rparr>)
   \<and> request moz_failing_host moz_ctl \<lparr>env = Null, activeVideo = Null, trace = []\<rparr>
       (Target (Obj 5) Undefined)
     = (Inl (Thrown (Str ''NotAllowedError'')),
        \<lparr>env = Null, activeVideo = Null, trace = [Call (Obj 5) ''mozRequestFullScreen'' []]\<rparr>)"
proof -
  let ?s = "\<lparr>env = Null, activeVideo = Null, trace = []\<rparr>"
  have std: "API standard_ctl = Some (zip (API_LIST ! 0) (API_LIST ! 0))"
    and moz: "API moz_ctl = Some (zip (API_LIST ! 0) (API_LIST ! 3))"
    by (simp_all add: standard_ctl_def moz_ctl_def)
  have std_name:
    "''requestFullscreen''
       = (case map_of (zip (API_LIST ! 0) (API_LIST ! 0)) ''requestFullscreen'' of
            None \<Rightarrow> ''undefined'' | Some n \<Rightarrow> n)"
    and moz_name:
    "''mozRequestFullScreen''
       = (case map_of (zip (API_LIST ! 0) (API_LIST ! 3)) ''requestFullscreen'' of
            None \<Rightarrow> ''undefined'' | Some n \<Rightarrow> n)"
    by (simp_all add: API_LIST_def)
  have "request standard_host standard_ctl ?s (Target (Obj 5) Undefined)
          = (Inr (Obj 901),
             \<lparr>env = Obj 5, activeVideo = Null, trace = [Call (Obj 5) ''requestFullscreen'' []]\<rparr>)"
    using request_standard_forwards
            [OF std std_name, of standard_host ?s "Obj 5" Undefined 5, THEN conjunct2, THEN conjunct2]
    by (simp add: standard_host_def)
  moreover
  have "request moz_host moz_ctl ?s (Target (Obj 5) Undefined)
          = (Inr Undefined,
             \<lparr>env = Obj 5, activeVideo = Null, trace = [Call (Obj 5) ''mozRequestFullScreen'' []]\<rparr>)"
    using request_standard_forwards
            [OF moz moz_name, of moz_host ?s "Obj 5" Undefined 5, THEN conjunct2, THEN conjunct2]
    by (simp add: moz_host_def)
  moreover
  have "request moz_host moz_ctl ?s NoTarget
          = (Inr Undefined,
             \<lparr>env = Obj 1, activeVideo = Null, trace = [Call (Obj 1) ''mozRequestFullScreen'' []]\<rparr>)"
    using request_standard_forwards
            [OF moz moz_name, of moz_host ?s "Obj 5" Undefined 5, THEN conjunct2, THEN conjunct1]
    by (simp add: moz_host_def moz_ctl_def call_method_def)
  moreover
  have "request moz_failing_host moz_ctl ?s (Target (Obj 5) Undefined)
          = (Inl (Thrown (Str ''NotAllowedError'')),
             \<lparr>env = Null, activeVideo = Null, trace = [Call (Obj 5) ''mozRequestFullScreen'' []]\<rparr>)"
    using request_standard_forwards
            [OF moz moz_name, of moz_failing_host ?s "Obj 5" Undefined 5,
             THEN conjunct2, THEN conjunct2]
    by (simp add: moz_failing_host_def moz_host_def)
  ultimately show ?thesis by simp
qed

subsection \<open>\<open>toggle\<close>\<close>

text \<open>
  C6. In both modes and for every target, \<open>toggle(target)\<close> does what
  \<open>isFullscreen(target) ? exit() : request(target)\<close> does: the same final state (slot,
  environment and log of calls), and it throws exactly when the conditional throws, with
  the same failure. Where the conditional yields the value of \<open>exit\<close> or \<open>request\<close>,
  \<open>toggle\<close> returns \<open>undefined\<close>.
\<close>

theorem toggle_refines_spec:
  "toggle H c s t = discard (toggle_spec H c s t)
   \<and> snd (toggle H c s t) = snd (toggle_spec H c s t)
   \<and> (\<forall>x. fst (toggle H c s t) = Inl x \<longleftrightarrow> fst (toggle_spec H c s t) = Inl x)"
proof -
  have eq: "toggle H c s t = discard (toggle_spec H c s t)"
    by (simp add: toggle_def toggle_spec_def discard_def split: sum.splits)
  then show ?thesis
    by (auto simp: discard_def split: prod.splits sum.splits)
qed

theorem toggle_refines_spec_witness:
  "toggle legacy_host legacy_ctl \<lparr>env = Null, activeVideo = Null, trace = []\<rparr>
       (Target Undefined (Obj 7))
     = (Inr Undefined,
        \<lparr>env = Obj 7, activeVideo = Obj 7, trace = [Call (Obj 7) ''webkitEnterFullscreen'' []]\<rparr>)
   \<and> toggle legacy_host legacy_ctl \<lparr>env = Obj 7, activeVideo = Obj 7, trace = []\<rparr>
       (Target Undefined (Obj 7))
     = (Inr Undefined, \<lparr>env = Obj 7, activeVideo = Null, trace = []\<rparr>)"
  using toggle_refines_spec
          [of legacy_host legacy_ctl "\<lparr>env = Null, activeVideo = Null, trace = []\<rparr>"
              "Target Undefined (Obj 7)"]
        toggle_refines_spec
          [of legacy_host legacy_ctl "\<lparr>env = Obj 7, activeVideo = Obj 7, trace = []\<rparr>"
              "Target Undefined (Obj 7)"]
  by (simp add: toggle_spec_def isFullscreen_def element_def request_def exit_def
        call_method_def discard_def legacy_ctl_def legacy_host_def)

end
